theory Spec2Isabelle
  imports Complex_Main
begin

section \<open>The forecast engine of \<open>CFOHelper.tsx\<close>\<close>

text \<open>
  The component \<open>CFOHelper\<close> keeps three slider values (\<open>spending\<close>, \<open>pricing\<close>,
  \<open>hiring\<close>) and a usage counter, and recomputes a twelve-month forecast from the three
  slider values on every render.

  A TypeScript \<open>number\<close> is modelled as a mathematical \<^typ>\<open>real\<close>: sums, products and
  the division by 12 are exact, and \<open>Math.floor\<close> is the floor of the exact product.
  The rounding of IEEE-754 doubles, \<open>NaN\<close> and the infinities are outside the model.
  Array indices are natural numbers.
\<close>

type_synonym number = real

subsection \<open>Data\<close>

text \<open>\<open>interface ForecastData\<close> (lines 5 to 11).\<close>

record ForecastData =
  month :: string
  revenue :: number
  expenses :: number
  cashFlow :: number
  headcount :: number

text \<open>
  The variables that the callback of \<open>months.forEach\<close> captures and mutates:
  \<open>currentCustomers\<close>, \<open>currentHeadcount\<close> and the array \<open>data\<close> (lines 37 to 40).
\<close>

record LoopVars =
  currentCustomers :: number
  currentHeadcount :: number
  data :: "ForecastData list"

subsection \<open>Library functions of the language\<close>

definition Math_floor :: "number \<Rightarrow> number" where
  "Math_floor x = of_int \<lfloor>x\<rfloor>"

text \<open>
  \<open>Array.prototype.forEach\<close> calls the callback with each element and its index, in
  order; the captured variables are threaded through as the state.
\<close>

fun forEach :: "('a \<Rightarrow> nat \<Rightarrow> 's \<Rightarrow> 's) \<Rightarrow> 'a list \<Rightarrow> nat \<Rightarrow> 's \<Rightarrow> 's" where
  "forEach f [] index st = st"
| "forEach f (x # xs) index st = forEach f xs (index + 1) (f x index st)"

text \<open>\<open>Array.prototype.reduce\<close> with an initial value.\<close>

definition reduce :: "('b \<Rightarrow> 'a \<Rightarrow> 'b) \<Rightarrow> 'b \<Rightarrow> 'a list \<Rightarrow> 'b" where
  "reduce f init xs = foldl f init xs"

subsection \<open>\<open>generateForecast\<close> (lines 35 to 72)\<close>

definition months :: "string list" where
  "months = [''Jan'', ''Feb'', ''Mar'', ''Apr'', ''May'', ''Jun'',
             ''Jul'', ''Aug'', ''Sep'', ''Oct'', ''Nov'', ''Dec'']"

text \<open>
  The body of the callback (lines 43 to 68). The three slider values are free variables of
  the closure and are parameters here; \<open>label\<close> is the callback's parameter \<open>month\<close>.
\<close>

definition callback ::
  "number \<Rightarrow> number \<Rightarrow> number \<Rightarrow> string \<Rightarrow> nat \<Rightarrow> LoopVars \<Rightarrow> LoopVars" where
  "callback spending pricing hiring label index vars =
     (let growthRate = 0.15;
          customerGrowth = Math_floor (currentCustomers vars * growthRate);
          vars = vars\<lparr>currentCustomers := currentCustomers vars + customerGrowth\<rparr>;
          revenue = currentCustomers vars * pricing;
          employeeCost = currentHeadcount vars * 5000;
          totalExpenses = spending + employeeCost;
          vars = (if index mod 3 = 0 \<and> index > 0
                  then vars\<lparr>currentHeadcount :=
                         currentHeadcount vars + Math_floor (hiring * 0.2)\<rparr>
                  else vars);
          cashFlow = revenue - totalExpenses
      in vars\<lparr>data := data vars @
           [\<lparr>month = label, revenue = revenue, expenses = totalExpenses,
             cashFlow = cashFlow, headcount = currentHeadcount vars\<rparr>]\<rparr>)"

definition initialVars :: "number \<Rightarrow> LoopVars" where
  "initialVars hiring = \<lparr>currentCustomers = 100, currentHeadcount = hiring, data = []\<rparr>"

definition generateForecast :: "number \<Rightarrow> number \<Rightarrow> number \<Rightarrow> ForecastData list" where
  "generateForecast spending pricing hiring =
     data (forEach (callback spending pricing hiring) months 0 (initialVars hiring))"

text \<open>
  The loop variables after the first \<open>k\<close> calls of the callback, that is, as the call
  for index \<open>k\<close> finds them.
\<close>

definition varsAfter :: "number \<Rightarrow> number \<Rightarrow> number \<Rightarrow> nat \<Rightarrow> LoopVars" where
  "varsAfter spending pricing hiring k =
     forEach (callback spending pricing hiring) (take k months) 0 (initialVars hiring)"

subsection \<open>The component and its aggregates (lines 13 to 17 and 74 to 78)\<close>

text \<open>The four \<open>useState\<close> cells of the component.\<close>

record CFOHelper_state =
  spending :: number
  pricing :: number
  hiring :: number
  usageCount :: number

definition forecastData :: "CFOHelper_state \<Rightarrow> ForecastData list" where
  "forecastData st = generateForecast (spending st) (pricing st) (hiring st)"


definition totalExpenses :: "CFOHelper_state \<Rightarrow> number" where
  "totalExpenses st = reduce (\<lambda>sum item. sum + expenses item) 0 (forecastData st)"


definition burnRate :: "CFOHelper_state \<Rightarrow> number" where
  "burnRate st = totalExpenses st / 12"

subsection \<open>The customer update with the growth rate as a parameter\<close>

text \<open>
  Lines 44 to 46 fix \<open>growthRate\<close> to the constant \<open>0.15\<close>. To speak about other growth
  rates, the same update is written here with the rate as an argument;
  \<open>callback_currentCustomers\<close> below shows that the callback is the instance \<open>0.15\<close>.
\<close>

definition growCustomers :: "number \<Rightarrow> number \<Rightarrow> number" where
  "growCustomers growthRate customers = customers + Math_floor (customers * growthRate)"


section \<open>Basic facts\<close>

lemma Math_floor_numeral: "Math_floor (numeral n) = numeral n"
  by (simp add: Math_floor_def)

lemma Math_floor_fraction:
  "Math_floor (numeral a / numeral b) = of_int (numeral a div numeral b)"
  by (simp add: Math_floor_def)

lemma Math_floor_nonneg: "0 \<le> x \<Longrightarrow> 0 \<le> Math_floor x"
  by (simp add: Math_floor_def)

lemma all_less_12:
  "(\<forall>i<12. P i) \<longleftrightarrow>
     P 0 \<and> P 1 \<and> P 2 \<and> P 3 \<and> P 4 \<and> P 5 \<and> P 6 \<and> P 7 \<and> P 8 \<and> P 9 \<and> P 10 \<and> P (11::nat)"
proof -
  have eq: "{..<12::nat} = {0, 1, 2, 3, 4, 5, 6, 7, 8, 9, 10, 11}"
    by auto arith
  have "(\<forall>i<12. P i) \<longleftrightarrow> (\<forall>i\<in>{..<12}. P i)"
    by auto
  also have "\<dots> \<longleftrightarrow> (\<forall>i\<in>{0, 1, 2, 3, 4, 5, 6, 7, 8, 9, 10, 11}. P i)"
    by (simp only: eq)
  also have "\<dots> \<longleftrightarrow>
     P 0 \<and> P 1 \<and> P 2 \<and> P 3 \<and> P 4 \<and> P 5 \<and> P 6 \<and> P 7 \<and> P 8 \<and> P 9 \<and> P 10 \<and> P 11"
    by simp
  finally show ?thesis .
qed

lemma foldl_plus: "foldl (\<lambda>sum item. sum + f item) a xs = a + sum_list (map f xs)"
  for a :: number
  by (induction xs arbitrary: a) (simp_all add: add.assoc)

lemma reduce_sum: "reduce (\<lambda>sum item. sum + f item) 0 xs = sum_list (map f xs)"
  for f :: "'a \<Rightarrow> number"
  by (simp add: reduce_def foldl_plus)

subsection \<open>The loop\<close>

lemma forEach_append:
  "forEach f (xs @ ys) index st = forEach f ys (index + length xs) (forEach f xs index st)"
  by (induction xs arbitrary: index st) simp_all

lemma callback_data_length:
  "length (data (callback s p h label index vars)) = Suc (length (data vars))"
  by (simp add: callback_def Let_def)

lemma forEach_data_length:
  "length (data (forEach (callback s p h) xs index vars)) = length (data vars) + length xs"
  by (induction xs arbitrary: index vars) (simp_all add: callback_data_length)

lemma callback_month:
  "map month (data (callback s p h label index vars)) = map month (data vars) @ [label]"
  by (simp add: callback_def Let_def)

lemma forEach_month:
  "map month (data (forEach (callback s p h) xs index vars)) = map month (data vars) @ xs"
  by (induction xs arbitrary: index vars) (simp_all add: callback_month)

lemma callback_currentCustomers:
  "currentCustomers (callback s p h label index vars) =
     growCustomers 0.15 (currentCustomers vars)"
  by (simp add: callback_def growCustomers_def Let_def)

lemma callback_currentHeadcount:
  "currentHeadcount (callback s p h label index vars) =
     (if index mod 3 = 0 \<and> index > 0 then currentHeadcount vars + Math_floor (h * 0.2)
      else currentHeadcount vars)"
  by (simp add: callback_def Let_def)



text \<open>
  \<open>varsAfter\<close> follows the loop: the call for index \<open>k\<close> takes \<open>varsAfter k\<close> to
  \<open>varsAfter (k + 1)\<close>, and the result of \<open>generateForecast\<close> is the array after the
  twelfth call.
\<close>

lemma varsAfter_Suc:
  assumes "k < 12"
  shows "varsAfter s p h (Suc k) = callback s p h (months ! k) k (varsAfter s p h k)"
proof -
  from assms have k: "k < length months"
    by (simp add: months_def)
  then have "take (Suc k) months = take k months @ [months ! k]"
    by (rule take_Suc_conv_app_nth)
  moreover from k have "length (take k months) = k"
    by simp
  ultimately show ?thesis
    by (simp add: varsAfter_def forEach_append)
qed

lemma generateForecast_varsAfter: "generateForecast s p h = data (varsAfter s p h 12)"
  by (simp add: generateForecast_def varsAfter_def months_def)

subsection \<open>The twelve records and the loop variables, computed\<close>

text \<open>
  Running the loop on symbolic slider values. \<open>d\<close> is the hiring increment of line 57,
  \<open>e0\<close> to \<open>e3\<close> are the four values that \<open>totalExpenses\<close> of line 53 takes.
\<close>

lemma generateForecast_unfold:
  "generateForecast s p h =
    (let d = Math_floor (h * 0.2); e0 = s + h * 5000; e1 = s + (h + d) * 5000;
         e2 = s + (h + d + d) * 5000; e3 = s + (h + d + d + d) * 5000
     in [\<lparr>month = ''Jan'', revenue = 115 * p, expenses = e0, cashFlow = 115 * p - e0,
           headcount = h\<rparr>,
         \<lparr>month = ''Feb'', revenue = 132 * p, expenses = e0, cashFlow = 132 * p - e0,
           headcount = h\<rparr>,
         \<lparr>month = ''Mar'', revenue = 151 * p, expenses = e0, cashFlow = 151 * p - e0,
           headcount = h\<rparr>,
         \<lparr>month = ''Apr'', revenue = 173 * p, expenses = e0, cashFlow = 173 * p - e0,
           headcount = h + d\<rparr>,
         \<lparr>month = ''May'', revenue = 198 * p, expenses = e1, cashFlow = 198 * p - e1,
           headcount = h + d\<rparr>,
         \<lparr>month = ''Jun'', revenue = 227 * p, expenses = e1, cashFlow = 227 * p - e1,
           headcount = h + d\<rparr>,
         \<lparr>month = ''Jul'', revenue = 261 * p, expenses = e1, cashFlow = 261 * p - e1,
           headcount = h + d + d\<rparr>,
         \<lparr>month = ''Aug'', revenue = 300 * p, expenses = e2, cashFlow = 300 * p - e2,
           headcount = h + d + d\<rparr>,
         \<lparr>month = ''Sep'', revenue = 345 * p, expenses = e2, cashFlow = 345 * p - e2,
           headcount = h + d + d\<rparr>,
         \<lparr>month = ''Oct'', revenue = 396 * p, expenses = e2, cashFlow = 396 * p - e2,
           headcount = h + d + d + d\<rparr>,
         \<lparr>month = ''Nov'', revenue = 455 * p, expenses = e3, cashFlow = 455 * p - e3,
           headcount = h + d + d + d\<rparr>,
         \<lparr>month = ''Dec'', revenue = 523 * p, expenses = e3, cashFlow = 523 * p - e3,
           headcount = h + d + d + d\<rparr>])"
  by (simp add: generateForecast_def months_def callback_def initialVars_def
        Math_floor_numeral Math_floor_fraction Let_def)

lemma varsAfter_currentHeadcount:
  "map (\<lambda>k. currentHeadcount (varsAfter s p h k)) [0, 1, 2, 3, 4, 5, 6, 7, 8, 9, 10, 11, 12] =
    (let d = Math_floor (h * 0.2)
     in [h, h, h, h, h + d, h + d, h + d, h + d + d, h + d + d, h + d + d,
         h + d + d + d, h + d + d + d, h + d + d + d])"
  by (simp add: varsAfter_def months_def callback_currentHeadcount initialVars_def Let_def)


subsection \<open>Invariants of the loop\<close>




lemma generateForecast_length: "length (generateForecast s p h) = 12"
  by (simp add: generateForecast_def forEach_data_length initialVars_def)
     (simp add: months_def)

lemma generateForecast_month: "map month (generateForecast s p h) = months"
  by (simp add: generateForecast_def forEach_month initialVars_def)


subsection \<open>Growth of the customer count\<close>






subsection \<open>Closed forms of the aggregates\<close>


lemma totalExpenses_sum: "totalExpenses st = (\<Sum>r\<leftarrow>forecastData st. expenses r)"
  by (simp add: totalExpenses_def reduce_sum)


lemma totalExpenses_closed:
  "totalExpenses st =
     12 * spending st + 5000 * (12 * hiring st + 15 * Math_floor (hiring st * 0.2))"
  by (simp add: totalExpenses_sum forecastData_def generateForecast_unfold Let_def)

section \<open>The claims\<close>

text \<open>
  C1. For a non-negative initial headcount \<open>h\<close> (in particular for every non-negative
  integer), the \<open>headcount\<close> fields of the twelve records are non-decreasing; the first is
  \<open>h\<close>, and from one record to the next the field changes only on reaching index 3, 6 or
  9, where it grows by exactly \<open>floor (h \<times> 0.2)\<close>. For \<open>h = 10\<close> the fields are
  10, 10, 10, 12, 12, 12, 14, 14, 14, 16, 16, 16.
\<close>

theorem headcount_schedule:
  "0 \<le> h \<Longrightarrow>
     sorted (map headcount (generateForecast s p h)) \<and>
     headcount (generateForecast s p h ! 0) = h \<and>
     (\<forall>i<11. headcount (generateForecast s p h ! Suc i) =
        headcount (generateForecast s p h ! i) +
        (if Suc i \<in> {3, 6, 9} then Math_floor (h * 0.2) else 0)) \<and>
     map headcount (generateForecast s p 10) =
       [10, 10, 10, 12, 12, 12, 14, 14, 14, 16, 16, 16]"
proof -
  assume "0 \<le> h"
  then have d: "0 \<le> Math_floor (h * 0.2)"
    by (simp add: Math_floor_nonneg)
  have "\<forall>i<12. i < 11 \<longrightarrow> headcount (generateForecast s p h ! Suc i) =
        headcount (generateForecast s p h ! i) +
        (if Suc i \<in> {3, 6, 9} then Math_floor (h * 0.2) else 0)"
    unfolding all_less_12 by (simp add: generateForecast_unfold Let_def)
  then have steps: "\<forall>i<11. headcount (generateForecast s p h ! Suc i) =
        headcount (generateForecast s p h ! i) +
        (if Suc i \<in> {3, 6, 9} then Math_floor (h * 0.2) else 0)"
    by auto
  have sorted: "sorted (map headcount (generateForecast s p h))"
    using d by (simp add: generateForecast_unfold Let_def)
  have first: "headcount (generateForecast s p h ! 0) = h"
    by (simp add: generateForecast_unfold Let_def)
  have ten: "map headcount (generateForecast s p 10) =
       [10, 10, 10, 12, 12, 12, 14, 14, 14, 16, 16, 16]"
    by (simp add: generateForecast_unfold Let_def Math_floor_numeral)
  from sorted first steps ten show ?thesis
    by (intro conjI)
qed

theorem headcount_schedule_witness:
  "(0::number) \<le> 10 \<and>
   sorted (map headcount (generateForecast 50000 100 10)) \<and>
   headcount (generateForecast 50000 100 10 ! 0) = 10 \<and>
   map headcount (generateForecast 50000 100 10) =
     [10, 10, 10, 12, 12, 12, 14, 14, 14, 16, 16, 16]"
  using headcount_schedule [of 10 50000 100] by simp

text \<open>
  C2. At every index \<open>i\<close>, \<open>expenses\<close> is \<open>spending\<close> plus 5000 times the headcount that
  the iteration finds, that is, the headcount before the hiring event of that iteration.
  The emitted \<open>headcount\<close> is that value plus \<open>floor (hiring \<times> 0.2)\<close> at the indices 3, 6
  and 9, and that value itself at every other index, where therefore
  \<open>expenses = spending + headcount \<times> 5000\<close> with the emitted headcount.
\<close>

theorem expenses_before_hiring_event:
  "i < 12 \<Longrightarrow>
     expenses (generateForecast s p h ! i) = s + currentHeadcount (varsAfter s p h i) * 5000 \<and>
     headcount (generateForecast s p h ! i) =
       currentHeadcount (varsAfter s p h i) +
       (if i \<in> {3, 6, 9} then Math_floor (h * 0.2) else 0) \<and>
     (i \<notin> {3, 6, 9} \<longrightarrow>
        expenses (generateForecast s p h ! i) = s + headcount (generateForecast s p h ! i) * 5000)"
proof -
  have "\<forall>i<12.
     expenses (generateForecast s p h ! i) = s + currentHeadcount (varsAfter s p h i) * 5000 \<and>
     headcount (generateForecast s p h ! i) =
       currentHeadcount (varsAfter s p h i) +
       (if i \<in> {3, 6, 9} then Math_floor (h * 0.2) else 0)"
    unfolding all_less_12
    using varsAfter_currentHeadcount [of s p h]
    by (simp add: Let_def generateForecast_unfold)
  then show "i < 12 \<Longrightarrow> ?thesis"
    by auto
qed

theorem expenses_before_hiring_event_witness:
  "(3::nat) < 12 \<and>
   currentHeadcount (varsAfter 50000 100 10 3) = 10 \<and>
   expenses (generateForecast 50000 100 10 ! 3) = 50000 + 10 * 5000 \<and>
   headcount (generateForecast 50000 100 10 ! 3) = 12 \<and>
   (4::nat) < 12 \<and>
   expenses (generateForecast 50000 100 10 ! 4) = 50000 + 12 * 5000 \<and>
   headcount (generateForecast 50000 100 10 ! 4) = 12"
  using expenses_before_hiring_event [of 3 50000 100 10]
    expenses_before_hiring_event [of 4 50000 100 10]
    varsAfter_currentHeadcount [of 50000 100 10]
  by (simp add: Let_def Math_floor_numeral)

text \<open>
  C3. For all inputs \<open>generateForecast\<close> returns exactly twelve records, whose month
  labels are Jan, Feb, Mar, Apr, May, Jun, Jul, Aug, Sep, Oct, Nov, Dec in this order.
\<close>

theorem twelve_records_in_calendar_order:
  "length (generateForecast s p h) = 12 \<and>
   map month (generateForecast s p h) =
     [''Jan'', ''Feb'', ''Mar'', ''Apr'', ''May'', ''Jun'',
      ''Jul'', ''Aug'', ''Sep'', ''Oct'', ''Nov'', ''Dec'']"
  using generateForecast_month [of s p h]
  by (simp add: generateForecast_length months_def)


text \<open>
  C5. With \<open>pricing = 100\<close> the revenue of the record at index 0 is 11500: the customer
  count is 100 before the first iteration and \<open>100 + floor (100 \<times> 0.15) = 115\<close> after its
  growth step, and the revenue of the month is computed from the grown count.
\<close>

theorem first_month_revenue:
  "currentCustomers (varsAfter s 100 h 0) = 100 \<and>
   currentCustomers (varsAfter s 100 h 1) = 100 + Math_floor (100 * 0.15) \<and>
   currentCustomers (varsAfter s 100 h 1) = 115 \<and>
   revenue (generateForecast s 100 h ! 0) = currentCustomers (varsAfter s 100 h 1) * 100 \<and>
   revenue (generateForecast s 100 h ! 0) = 11500"
  by (simp add: varsAfter_def months_def initialVars_def callback_currentCustomers
        growCustomers_def Math_floor_numeral generateForecast_unfold Let_def)





text \<open>
  C8. \<open>burnRate\<close> is \<open>totalExpenses\<close> divided by 12, where \<open>totalExpenses\<close> is the sum of
  the \<open>expenses\<close> fields of the twelve records.
\<close>

theorem burnRate_twelfth_of_expenses:
  "burnRate st = totalExpenses st / 12 \<and>
   totalExpenses st = (\<Sum>r\<leftarrow>forecastData st. expenses r) \<and>
   length (forecastData st) = 12 \<and>
   burnRate st = (\<Sum>r\<leftarrow>forecastData st. expenses r) / 12"
  by (simp add: burnRate_def totalExpenses_sum forecastData_def generateForecast_length)




end
